theory Spec2Isabelle
  imports Main "HOL-Library.Word"
begin

unbundle bit_operations_syntax

section \<open>termfields: form fields drawn on a terminal cell grid\<close>

text \<open>
  A shallow embedding of \<^verbatim>\<open>termfields.go\<close>. The Go types are kept: \<^verbatim>\<open>int\<close> is a
  64-bit two's complement word (arithmetic wraps, comparisons are signed), \<^verbatim>\<open>boxStyle\<close>
  and \<^verbatim>\<open>shiftDir\<close> are \<^verbatim>\<open>uint16\<close>, a \<^verbatim>\<open>rune\<close> is an \<^verbatim>\<open>int32\<close>, and a Go string is
  its sequence of bytes (an Isabelle \<^typ>\<open>string\<close>, whose characters are bytes).
  A Go \<^verbatim>\<open>error\<close> is represented by its message; \<^term>\<open>None\<close> is \<^verbatim>\<open>nil\<close>.
\<close>

type_synonym go_int = "64 word"
type_synonym rune = "32 word"
type_synonym boxStyle = "16 word"
type_synonym shiftDir = "16 word"
type_synonym attribute = "16 word"
type_synonym error = string

subsection \<open>Constants\<close>

definition boxStyleClear :: boxStyle where "boxStyleClear = 0"
definition BoxStyleNone :: boxStyle where "BoxStyleNone = 1"
definition BoxStyleASCII :: boxStyle where "BoxStyleASCII = 2"
definition BoxStyleUnicode :: boxStyle where "BoxStyleUnicode = 3"

definition FieldShiftLeft :: shiftDir where "FieldShiftLeft = 0"
definition FieldShiftRight :: shiftDir where "FieldShiftRight = 1"
definition FieldShiftUp :: shiftDir where "FieldShiftUp = 2"
definition FieldShiftDown :: shiftDir where "FieldShiftDown = 3"

text \<open>The table filled in by \<^verbatim>\<open>init()\<close>: six glyphs per style, in the order
  top-left, top-right, bottom-left, bottom-right, horizontal, vertical.\<close>

definition boxRunesMap :: "boxStyle \<rightharpoonup> rune list" where
  "boxRunesMap = map_of
     [(boxStyleClear, [0x20, 0x20, 0x20, 0x20, 0x20, 0x20]),
      (BoxStyleNone, [0x0, 0x0, 0x0, 0x0, 0x0, 0x0]),
      (BoxStyleASCII, [0x2B, 0x2B, 0x2B, 0x2B, 0x2D, 0x7C]),
      (BoxStyleUnicode, [0x250c, 0x2510, 0x2514, 0x2518, 0x2500, 0x2502])]"

subsection \<open>The field and the terminal backend\<close>

text \<open>
  The members \<^verbatim>\<open>x\<close>, \<^verbatim>\<open>y\<close>, \<^verbatim>\<open>len\<close>, \<^verbatim>\<open>border\<close> and \<^verbatim>\<open>text\<close> of the struct \<^verbatim>\<open>field\<close> carry
  the prefix \<open>f_\<close> here. A method takes the field and the backend and returns both;
  \<^verbatim>\<open>Update\<close> and \<^verbatim>\<open>DrawBox\<close> return their error first. \<^verbatim>\<open>Init\<close> and \<^verbatim>\<open>Close\<close> only
  delegate to the backend, whose flag the operations below read.
\<close>

record field =
  f_x :: go_int
  f_y :: go_int
  f_len :: go_int
  f_border :: boxStyle
  f_text :: string

text \<open>
  The termbox package is an external collaborator. Its state is the flag \<^verbatim>\<open>tb.IsInit\<close>
  and, in place of the cell buffer, the sequence of calls it has received, oldest first.
\<close>

datatype tb_call = SetCell go_int go_int rune attribute attribute | Flush

record termbox =
  IsInit :: bool
  calls :: "tb_call list"

definition ColorDefault :: attribute where "ColorDefault = 0"

definition tb_SetCell :: "go_int \<Rightarrow> go_int \<Rightarrow> rune \<Rightarrow> attribute \<Rightarrow> attribute \<Rightarrow> termbox \<Rightarrow> termbox" where
  "tb_SetCell cx cy ch fg bg tb = tb\<lparr>calls := calls tb @ [SetCell cx cy ch fg bg]\<rparr>"

definition tb_Flush :: "termbox \<Rightarrow> termbox" where
  "tb_Flush tb = tb\<lparr>calls := calls tb @ [Flush]\<rparr>"

definition Row :: "field \<Rightarrow> go_int" where "Row f = f_y f"
definition Column :: "field \<Rightarrow> go_int" where "Column f = f_x f"

subsection \<open>Go's \<^verbatim>\<open>for i, c := range s\<close> over a string\<close>

text \<open>
  The range clause decodes UTF-8: a byte below \<^verbatim>\<open>0x80\<close> is a rune of width one, anything
  else goes through the runtime's \<^verbatim>\<open>decoderune\<close>, which yields \<^verbatim>\<open>U+FFFD\<close> and width one on
  a malformed sequence. The index handed to the loop body is the byte offset at which the
  rune starts.
\<close>

definition byte :: "char \<Rightarrow> 8 word" where "byte c = of_char c"

definition runeError :: rune where "runeError = 0xFFFD"
definition maxRune :: rune where "maxRune = 0x10FFFF"
definition surrogateMin :: rune where "surrogateMin = 0xD800"
definition surrogateMax :: rune where "surrogateMax = 0xDFFF"
definition rune1Max :: rune where "rune1Max = 0x7F"
definition rune2Max :: rune where "rune2Max = 0x7FF"
definition rune3Max :: rune where "rune3Max = 0xFFFF"

definition cont :: "char \<Rightarrow> bool" where
  "cont c \<longleftrightarrow> 0x80 \<le> byte c \<and> byte c \<le> 0xBF"

definition decoderune :: "string \<Rightarrow> rune \<times> nat" where
  "decoderune s =
     (if s = [] then (runeError, 1)
      else let s0 = byte (s ! 0) in
        if 0xC0 \<le> s0 \<and> s0 < 0xE0 then
          (if 1 < length s \<and> cont (s ! 1) then
             (let r = push_bit 6 (ucast (s0 AND 0x1F)) OR ucast (byte (s ! 1) AND 0x3F)
              in if rune1Max <s r then (r, 2) else (runeError, 1))
           else (runeError, 1))
        else if 0xE0 \<le> s0 \<and> s0 < 0xF0 then
          (if 2 < length s \<and> cont (s ! 1) \<and> cont (s ! 2) then
             (let r = push_bit 12 (ucast (s0 AND 0x0F)) OR push_bit 6 (ucast (byte (s ! 1) AND 0x3F))
                        OR ucast (byte (s ! 2) AND 0x3F)
              in if rune2Max <s r \<and> \<not> (surrogateMin \<le>s r \<and> r \<le>s surrogateMax) then (r, 3)
                 else (runeError, 1))
           else (runeError, 1))
        else if 0xF0 \<le> s0 \<and> s0 < 0xF8 then
          (if 3 < length s \<and> cont (s ! 1) \<and> cont (s ! 2) \<and> cont (s ! 3) then
             (let r = push_bit 18 (ucast (s0 AND 0x07)) OR push_bit 12 (ucast (byte (s ! 1) AND 0x3F))
                        OR push_bit 6 (ucast (byte (s ! 2) AND 0x3F)) OR ucast (byte (s ! 3) AND 0x3F)
              in if rune3Max <s r \<and> r \<le>s maxRune then (r, 4) else (runeError, 1))
           else (runeError, 1))
        else (runeError, 1))"

text \<open>The rune at the head of a non-empty string and the number of bytes it takes.\<close>

definition rune_at :: "string \<Rightarrow> rune \<times> nat" where
  "rune_at s =
     (if s = [] then (runeError, 1)
      else if byte (s ! 0) < 0x80 then (ucast (byte (s ! 0)), 1)
      else decoderune s)"

lemma decoderune_width: "0 < snd (decoderune s)"
  by (simp add: decoderune_def Let_def)

lemma rune_at_width: "0 < snd (rune_at s)"
  by (simp add: rune_at_def decoderune_width)

text \<open>The pairs \<open>(i, c)\<close> the loop body sees, in order; \<open>i\<close> starts at the given offset.\<close>

function range_string :: "nat \<Rightarrow> string \<Rightarrow> (nat \<times> rune) list" where
  "range_string i s =
     (if s = [] then []
      else (i, fst (rune_at s)) # range_string (i + snd (rune_at s)) (drop (snd (rune_at s)) s))"
  by pat_completeness auto
termination
  by (relation "measure (\<lambda>(i, s). length s)") (use rune_at_width in auto)

declare range_string.simps [simp del]

subsection \<open>\<^verbatim>\<open>fmt.Sprintf("%*s", n, " ")\<close>\<close>

text \<open>
  The blank string \<^verbatim>\<open>Loc\<close> writes over the old content. The \<^verbatim>\<open>fmt\<close> package rejects a width
  beyond a million in either direction (it prints \<^verbatim>\<open>%!(BADWIDTH)\<close> and then formats the
  operand without a width), takes a negative width as left justification with the
  absolute value, and pads the one-character operand with spaces up to the width.
\<close>

definition Sprintf_pad :: "go_int \<Rightarrow> string" where
  "Sprintf_pad n =
     (if 1000000 <s n \<or> n <s - 1000000 then ''%!(BADWIDTH) ''
      else let wid = (if n <s 0 then - n else n)
           in if sint wid \<le> 1 then '' '' else replicate (nat (sint wid)) CHR '' '')"

subsection \<open>\<^verbatim>\<open>Update\<close> and \<^verbatim>\<open>DrawBox\<close>\<close>

definition Update :: "field \<Rightarrow> string \<Rightarrow> termbox \<Rightarrow> error option \<times> field \<times> termbox" where
  "Update f s tb =
     (if \<not> IsInit tb then (Some ''Term not Initialized'', f, tb)
      else let tb1 = foldl (\<lambda>t (i, c). tb_SetCell (f_x f + of_nat i) (f_y f) c ColorDefault ColorDefault t)
                       tb (range_string 0 s)
           in (None, f\<lparr>f_text := s\<rparr>, tb_Flush tb1))"

lemma sint_succ_of_sless:
  fixes i k :: go_int
  assumes "i <s k"
  shows "sint (i + 1) = sint i + 1"
proof -
  have "sint k < 2 ^ 63"
    using sint_lt [of k] by simp
  moreover have "- (2 ^ 63) \<le> sint i"
    using sint_ge [of i] by simp
  ultimately have "- (2 ^ 63) \<le> sint i + 1" "sint i + 1 < 2 ^ 63"
    using assms by (simp_all add: word_sless_alt)
  then show ?thesis
    by (simp add: sint_word_ariths signed_take_bit_int_eq_self)
qed

text \<open>The loop \<^verbatim>\<open>for i := 0; i < f.len+1; i++\<close> that draws the top and bottom edges,
  entered at counter \<open>i\<close> with the horizontal glyph \<open>h\<close>.\<close>

function DrawBox_loop :: "field \<Rightarrow> rune \<Rightarrow> go_int \<Rightarrow> termbox \<Rightarrow> termbox" where
  "DrawBox_loop f h i tb =
     (if i <s f_len f + 1 then
        DrawBox_loop f h (i + 1)
          (tb_SetCell (f_x f + i) (f_y f + 1) h ColorDefault ColorDefault
            (tb_SetCell (f_x f + i) (f_y f - 1) h ColorDefault ColorDefault tb))
      else tb)"
  by pat_completeness auto
termination
  by (relation "measure (\<lambda>(f, h, i, tb). nat (sint (f_len f + 1) - sint i))")
    (auto simp: sint_succ_of_sless word_sless_alt)

declare DrawBox_loop.simps [simp del]

definition DrawBox :: "field \<Rightarrow> boxStyle \<Rightarrow> termbox \<Rightarrow> error option \<times> field \<times> termbox" where
  "DrawBox f boxType tb =
     (if \<not> IsInit tb then (Some ''Term not Initialized'', f, tb)
      else case boxRunesMap boxType of
        None \<Rightarrow> (Some ''Unknown Box Style'', f, tb)
      | Some rs \<Rightarrow>
          let tb1 = tb_SetCell (f_x f - 1) (f_y f - 1) (rs ! 0) ColorDefault ColorDefault tb;
              tb2 = tb_SetCell (f_x f + f_len f + 1) (f_y f - 1) (rs ! 1) ColorDefault ColorDefault tb1;
              tb3 = tb_SetCell (f_x f - 1) (f_y f + 1) (rs ! 2) ColorDefault ColorDefault tb2;
              tb4 = tb_SetCell (f_x f + f_len f + 1) (f_y f + 1) (rs ! 3) ColorDefault ColorDefault tb3;
              tb5 = tb_SetCell (f_x f - 1) (f_y f) (rs ! 5) ColorDefault ColorDefault tb4;
              tb6 = tb_SetCell (f_x f + f_len f + 1) (f_y f) (rs ! 5) ColorDefault ColorDefault tb5;
              tb7 = DrawBox_loop f (rs ! 4) 0 tb6
          in (None, f\<lparr>f_border := boxType\<rparr>, tb_Flush tb7))"

subsection \<open>\<^verbatim>\<open>Loc\<close>, \<^verbatim>\<open>Shift\<close> and \<^verbatim>\<open>NewField\<close>\<close>

text \<open>Both methods have no result and drop the errors of the calls they make.\<close>

definition Loc :: "field \<Rightarrow> go_int \<Rightarrow> go_int \<Rightarrow> termbox \<Rightarrow> field \<times> termbox" where
  "Loc f ny nx tb =
     (let border = f_border f;
          (e1, f1, tb1) = Update f (Sprintf_pad (f_len f)) tb;
          (e2, f2, tb2) = DrawBox f1 boxStyleClear tb1;
          f3 = f2\<lparr>f_x := nx\<rparr>;
          f4 = f3\<lparr>f_y := ny\<rparr>;
          (e3, f5, tb3) = DrawBox f4 border tb2;
          (e4, f6, tb4) = Update f5 (f_text f5) tb3
      in (f6, tb4))"

definition Shift :: "field \<Rightarrow> shiftDir \<Rightarrow> termbox \<Rightarrow> field \<times> termbox" where
  "Shift f dir tb =
     (let border = f_border f;
          (e1, f1, tb1) = DrawBox f boxStyleClear tb;
          f2 = (if dir = FieldShiftLeft then f1\<lparr>f_x := f_x f1 - 1\<rparr>
                else if dir = FieldShiftRight then f1\<lparr>f_x := f_x f1 + 1\<rparr>
                else if dir = FieldShiftUp then f1\<lparr>f_y := f_y f1 - 1\<rparr>
                else if dir = FieldShiftDown then f1\<lparr>f_y := f_y f1 + 1\<rparr>
                else f1);
          (e2, f3, tb2) = DrawBox f2 border tb1;
          (e3, f4, tb3) = Update f3 (f_text f3) tb2
      in (f4, tb3))"

text \<open>The struct literal leaves \<^verbatim>\<open>border\<close> and \<^verbatim>\<open>text\<close> at their zero values.\<close>

definition NewField :: "go_int \<Rightarrow> go_int \<Rightarrow> go_int \<Rightarrow> string \<Rightarrow> termbox \<Rightarrow> (error + field) \<times> termbox" where
  "NewField ny nx nlen s tb =
     (let f = \<lparr>f_x = nx, f_y = ny, f_len = nlen, f_border = 0, f_text = []\<rparr>
      in case Update f s tb of
           (Some err, f1, tb1) \<Rightarrow> (Inl err, tb1)
         | (None, f1, tb1) \<Rightarrow> (Inr f1, tb1))"

subsection \<open>The calls an operation sends to the backend\<close>

text \<open>The cell writes of \<^verbatim>\<open>Update\<close> for a string anchored at \<open>(cx, cy)\<close>.\<close>

definition text_cells :: "go_int \<Rightarrow> go_int \<Rightarrow> string \<Rightarrow> tb_call list" where
  "text_cells cx cy s =
     map (\<lambda>(i, c). SetCell (cx + of_nat i) cy c ColorDefault ColorDefault) (range_string 0 s)"

text \<open>The cell writes of the edge loop for the counter values \<open>js\<close>: above, then below.\<close>

definition edge_cells :: "go_int \<Rightarrow> go_int \<Rightarrow> rune \<Rightarrow> int list \<Rightarrow> tb_call list" where
  "edge_cells cx cy h js =
     concat (map (\<lambda>j. [SetCell (cx + word_of_int j) (cy - 1) h ColorDefault ColorDefault,
                        SetCell (cx + word_of_int j) (cy + 1) h ColorDefault ColorDefault]) js)"

section \<open>Properties\<close>

subsection \<open>The guards of \<^verbatim>\<open>Update\<close> and \<^verbatim>\<open>DrawBox\<close>\<close>

lemma Update_not_init:
  "\<not> IsInit tb \<Longrightarrow> Update f s tb = (Some ''Term not Initialized'', f, tb)"
  by (simp add: Update_def)

lemma DrawBox_not_init:
  "\<not> IsInit tb \<Longrightarrow> DrawBox f st tb = (Some ''Term not Initialized'', f, tb)"
  by (simp add: DrawBox_def)

lemma DrawBox_unknown:
  "IsInit tb \<Longrightarrow> boxRunesMap st = None \<Longrightarrow> DrawBox f st tb = (Some ''Unknown Box Style'', f, tb)"
  by (simp add: DrawBox_def)

lemma boxRunesMap_None_iff:
  "boxRunesMap st = None \<longleftrightarrow> st \<notin> {boxStyleClear, BoxStyleNone, BoxStyleASCII, BoxStyleUnicode}"
  by (simp add: boxRunesMap_def)

lemma boxRunesMap_Clear: "boxRunesMap boxStyleClear \<noteq> None"
  by (simp add: boxRunesMap_def)

subsection \<open>The trace of \<^verbatim>\<open>Update\<close>\<close>

lemma foldl_tb_SetCell:
  "foldl (\<lambda>t (i, c). tb_SetCell (cx + of_nat i) cy c fg bg t) tb ps =
     tb\<lparr>calls := calls tb @ map (\<lambda>(i, c). SetCell (cx + of_nat i) cy c fg bg) ps\<rparr>"
  by (induction ps arbitrary: tb) (auto simp: tb_SetCell_def)

lemma Update_init:
  "IsInit tb \<Longrightarrow> Update f s tb =
     (None, f\<lparr>f_text := s\<rparr>, tb\<lparr>calls := calls tb @ text_cells (f_x f) (f_y f) s @ [Flush]\<rparr>)"
  by (simp add: Update_def foldl_tb_SetCell tb_Flush_def text_cells_def)

subsection \<open>The edge loop of \<^verbatim>\<open>DrawBox\<close>\<close>

lemma IsInit_DrawBox_loop: "IsInit (DrawBox_loop f h i tb) = IsInit tb"
proof (induction f h i tb rule: DrawBox_loop.induct)
  case (1 f h i tb)
  show ?case
    by (subst DrawBox_loop.simps) (use 1 in \<open>simp add: tb_SetCell_def\<close>)
qed

text \<open>The loop reads the anchor and the width of the field only.\<close>

lemma DrawBox_loop_border:
  "DrawBox_loop (f\<lparr>f_border := b\<rparr>) h i tb = DrawBox_loop f h i tb"
proof (induction f h i tb rule: DrawBox_loop.induct)
  case (1 f h i tb)
  show ?case
    by (subst DrawBox_loop.simps, subst (2) DrawBox_loop.simps) (use 1 in simp)
qed

lemma sint_len_succ:
  fixes n :: go_int
  assumes "sint n < 2 ^ 63 - 1"
  shows "sint (n + 1) = sint n + 1"
proof -
  have "- (2 ^ 63) \<le> sint n"
    using sint_ge [of n] by simp
  with assms show ?thesis
    by (simp add: sint_word_ariths signed_take_bit_int_eq_self)
qed

text \<open>Unless \<^verbatim>\<open>f.len+1\<close> overflows, the loop runs its counter from \<open>i\<close> up to \<^verbatim>\<open>f.len\<close>.\<close>

lemma DrawBox_loop_calls:
  assumes "sint (f_len f) < 2 ^ 63 - 1"
  shows "DrawBox_loop f h i tb =
           tb\<lparr>calls := calls tb @ edge_cells (f_x f) (f_y f) h [sint i..sint (f_len f)]\<rparr>"
  using assms
proof (induction f h i tb rule: DrawBox_loop.induct)
  case (1 f h i tb)
  have len1: "sint (f_len f + 1) = sint (f_len f) + 1"
    using "1.prems" by (rule sint_len_succ)
  show ?case
  proof (cases "i <s f_len f + 1")
    case True
    then have le: "sint i \<le> sint (f_len f)"
      by (simp add: word_sless_alt len1)
    have step: "sint (i + 1) = sint i + 1"
      using True by (rule sint_succ_of_sless)
    have "[sint i..sint (f_len f)] = sint i # [sint (i + 1)..sint (f_len f)]"
      using le by (simp add: upto_rec1 step)
    then show ?thesis
      using True "1.IH" [OF True "1.prems"]
      by (subst DrawBox_loop.simps) (simp add: tb_SetCell_def edge_cells_def)
  next
    case False
    then have "sint (f_len f) < sint i"
      by (simp add: word_sless_alt len1)
    then show ?thesis
      using False by (subst DrawBox_loop.simps) (simp add: edge_cells_def)
  qed
qed

subsection \<open>What each operation does to the field and to the flag\<close>

lemma DrawBox_field:
  "fst (snd (DrawBox f st tb)) =
     (if IsInit tb \<and> boxRunesMap st \<noteq> None then f\<lparr>f_border := st\<rparr> else f)"
  by (auto simp: DrawBox_def Let_def)

lemma DrawBox_IsInit: "IsInit (snd (snd (DrawBox f st tb))) = IsInit tb"
  by (auto simp: DrawBox_def Let_def tb_Flush_def tb_SetCell_def IsInit_DrawBox_loop
      split: option.splits)

lemma Update_field:
  "fst (snd (Update f s tb)) = (if IsInit tb then f\<lparr>f_text := s\<rparr> else f)"
  by (simp add: Update_def Let_def)

lemma Update_IsInit: "IsInit (snd (snd (Update f s tb))) = IsInit tb"
  by (cases "IsInit tb") (simp_all add: Update_init Update_not_init)

text \<open>\<^verbatim>\<open>Loc\<close> keeps the border in a local variable across the erase, but not the text:
  the first \<^verbatim>\<open>Update\<close> has already replaced \<^verbatim>\<open>f.text\<close> by the blank string when the last
  line reads it.\<close>

lemma Loc_field:
  "fst (Loc f ny nx tb) =
     (if IsInit tb then
        f\<lparr>f_x := nx, f_y := ny,
          f_border := (if boxRunesMap (f_border f) = None then boxStyleClear else f_border f),
          f_text := Sprintf_pad (f_len f)\<rparr>
      else f\<lparr>f_x := nx, f_y := ny\<rparr>)"
  by (simp add: Loc_def Let_def case_prod_unfold DrawBox_field DrawBox_IsInit Update_field
      Update_IsInit boxRunesMap_Clear)

lemma Shift_field:
  "fst (Shift f dir tb) =
     (let g = (if IsInit tb \<and> boxRunesMap (f_border f) = None
               then f\<lparr>f_border := boxStyleClear\<rparr> else f)
      in if dir = FieldShiftLeft then g\<lparr>f_x := f_x f - 1\<rparr>
         else if dir = FieldShiftRight then g\<lparr>f_x := f_x f + 1\<rparr>
         else if dir = FieldShiftUp then g\<lparr>f_y := f_y f - 1\<rparr>
         else if dir = FieldShiftDown then g\<lparr>f_y := f_y f + 1\<rparr>
         else g)"
  by (simp add: Shift_def Let_def case_prod_unfold DrawBox_field DrawBox_IsInit Update_field
      Update_IsInit boxRunesMap_Clear)

lemma Shift_IsInit: "IsInit (snd (Shift f dir tb)) = IsInit tb"
  by (simp add: Shift_def Let_def case_prod_unfold DrawBox_IsInit Update_IsInit)

lemma Loc_IsInit: "IsInit (snd (Loc f ny nx tb)) = IsInit tb"
  by (simp add: Loc_def Let_def case_prod_unfold DrawBox_IsInit Update_IsInit)

lemma Loc_not_init: "\<not> IsInit tb \<Longrightarrow> Loc f ny nx tb = (f\<lparr>f_x := nx, f_y := ny\<rparr>, tb)"
  by (simp add: Loc_def Update_not_init DrawBox_not_init)

lemma Shift_not_init:
  "\<not> IsInit tb \<Longrightarrow> Shift f dir tb =
     (if dir = FieldShiftLeft then f\<lparr>f_x := f_x f - 1\<rparr>
      else if dir = FieldShiftRight then f\<lparr>f_x := f_x f + 1\<rparr>
      else if dir = FieldShiftUp then f\<lparr>f_y := f_y f - 1\<rparr>
      else if dir = FieldShiftDown then f\<lparr>f_y := f_y f + 1\<rparr>
      else f, tb)"
  by (simp add: Shift_def Update_not_init DrawBox_not_init)

text \<open>Every field the package hands out has a border style of the table: \<^verbatim>\<open>NewField\<close>
  starts at the zero value and only a successful \<^verbatim>\<open>DrawBox\<close> assigns the member.\<close>

lemma NewField_border_known:
  "fst (NewField ny nx nlen s tb) = Inr g \<Longrightarrow> f_border g \<in> dom boxRunesMap"
  by (cases "IsInit tb")
    (auto simp: NewField_def Update_init Update_not_init boxRunesMap_def boxStyleClear_def)

lemma border_known_preserved:
  assumes "f_border f \<in> dom boxRunesMap"
  shows "f_border (fst (snd (Update f s tb))) \<in> dom boxRunesMap"
    and "f_border (fst (snd (DrawBox f st tb))) \<in> dom boxRunesMap"
    and "f_border (fst (Loc f ny nx tb)) \<in> dom boxRunesMap"
    and "f_border (fst (Shift f dir tb)) \<in> dom boxRunesMap"
  using assms by (auto simp: Update_field DrawBox_field Loc_field Shift_field Let_def)

text \<open>The accessors read back what \<^verbatim>\<open>NewField\<close> was given.\<close>

lemma NewField_Row_Column:
  "fst (NewField ny nx nlen s tb) = Inr g \<Longrightarrow> Row g = ny \<and> Column g = nx"
  by (cases "IsInit tb")
    (auto simp: NewField_def Update_init Update_not_init Row_def Column_def)

text \<open>Neither operation reads the border member when it talks to the backend.\<close>

lemma DrawBox_backend_border:
  "snd (snd (DrawBox (f\<lparr>f_border := b\<rparr>) st tb)) = snd (snd (DrawBox f st tb))"
  by (simp add: DrawBox_def Let_def DrawBox_loop_border split: option.splits)

lemma Update_backend_border:
  "snd (snd (Update (f\<lparr>f_border := b\<rparr>) s tb)) = snd (snd (Update f s tb))"
  by (simp add: Update_def Let_def)

subsection \<open>Strings of one-byte runes\<close>

text \<open>On a string whose bytes are all below \<^verbatim>\<open>0x80\<close> the byte offset and the rune count
  agree, and \<^verbatim>\<open>Update\<close> fills successive cells.\<close>

lemma range_string_Nil: "range_string i [] = []"
  by (simp add: range_string.simps)

lemma range_string_ascii_Cons:
  "byte c < 0x80 \<Longrightarrow> range_string i (c # s) = (i, ucast (byte c)) # range_string (Suc i) s"
  by (subst range_string.simps) (simp add: rune_at_def)

lemma range_string_ascii:
  "\<forall>c \<in> set s. byte c < 0x80 \<Longrightarrow>
     range_string i s = map (\<lambda>k. (i + k, ucast (byte (s ! k)))) [0..<length s]"
proof (induction s arbitrary: i)
  case Nil
  then show ?case by (simp add: range_string_Nil)
next
  case (Cons c s)
  have "map (\<lambda>k. (i + k, ucast (byte ((c # s) ! k)) :: rune)) [0..<length (c # s)] =
          (i, ucast (byte c)) # map (\<lambda>k. (Suc i + k, ucast (byte (s ! k)))) [0..<length s]"
    by (simp add: upt_conv_Cons map_Suc_upt [symmetric] del: upt_Suc)
  with Cons show ?case
    by (simp add: range_string_ascii_Cons)
qed

lemma text_cells_ascii:
  assumes "\<forall>c \<in> set s. byte c < 0x80"
  shows "text_cells cx cy s =
     map (\<lambda>k. SetCell (cx + of_nat k) cy (ucast (byte (s ! k))) ColorDefault ColorDefault)
       [0..<length s]"
  by (simp add: text_cells_def range_string_ascii [OF assms] comp_def)

subsection \<open>The largest \<^verbatim>\<open>int\<close>\<close>

lemma sint_below_max:
  fixes n :: go_int
  assumes "n \<noteq> 0x7FFFFFFFFFFFFFFF"
  shows "sint n < 2 ^ 63 - 1"
proof (rule ccontr)
  assume "\<not> sint n < 2 ^ 63 - 1"
  moreover have "sint n < 2 ^ 63"
    using sint_lt [of n] by simp
  ultimately have "sint n = 2 ^ 63 - 1"
    by simp
  then have "word_of_int (sint n) = (word_of_int (2 ^ 63 - 1) :: go_int)"
    by simp
  then have "n = 0x7FFFFFFFFFFFFFFF"
    by simp
  with assms show False by simp
qed


section \<open>The claims of the specification\<close>

subsection \<open>Content update\<close>

text \<open>
  Claim C5. \<^verbatim>\<open>Update(newText)\<close> fails with the error "Term not Initialized" and leaves the
  field (its text included) and the backend as they were when the backend is not
  initialized; with the backend initialized it succeeds, and whenever it succeeds the
  stored text is \<open>newText\<close>.
\<close>

theorem Update_guard_and_store:
  "(\<not> IsInit tb \<longrightarrow> Update f s tb = (Some ''Term not Initialized'', f, tb)) \<and>
   (IsInit tb \<longrightarrow> fst (Update f s tb) = None) \<and>
   (fst (Update f s tb) = None \<longrightarrow> f_text (fst (snd (Update f s tb))) = s)"
  by (cases "IsInit tb") (simp_all add: Update_init Update_not_init)

theorem Update_guard_and_store_witness:
  "Update \<lparr>f_x = 10, f_y = 5, f_len = 8, f_border = BoxStyleASCII, f_text = ''hello''\<rparr> ''bye''
       \<lparr>IsInit = False, calls = []\<rparr>
     = (Some ''Term not Initialized'',
        \<lparr>f_x = 10, f_y = 5, f_len = 8, f_border = BoxStyleASCII, f_text = ''hello''\<rparr>,
        \<lparr>IsInit = False, calls = []\<rparr>) \<and>
   fst (Update \<lparr>f_x = 10, f_y = 5, f_len = 8, f_border = BoxStyleASCII, f_text = ''hello''\<rparr> ''bye''
       \<lparr>IsInit = True, calls = []\<rparr>) = None \<and>
   f_text (fst (snd (Update \<lparr>f_x = 10, f_y = 5, f_len = 8, f_border = BoxStyleASCII, f_text = ''hello''\<rparr>
       ''bye'' \<lparr>IsInit = True, calls = []\<rparr>))) = ''bye''"
  using Update_guard_and_store [of "\<lparr>IsInit = False, calls = []\<rparr>"
      "\<lparr>f_x = 10, f_y = 5, f_len = 8, f_border = BoxStyleASCII, f_text = ''hello''\<rparr>" "''bye''"]
    Update_guard_and_store [of "\<lparr>IsInit = True, calls = []\<rparr>"
      "\<lparr>f_x = 10, f_y = 5, f_len = 8, f_border = BoxStyleASCII, f_text = ''hello''\<rparr>" "''bye''"]
  by simp

subsection \<open>Construction\<close>

text \<open>
  Claim C9. \<^verbatim>\<open>NewField\<close> does not validate its width: for all integers row, column and
  width (zero and negative widths included) and every string, with the backend
  initialized it returns a field that stores exactly these values, and no error.
\<close>

theorem NewField_stores_arguments:
  "IsInit tb \<Longrightarrow>
     fst (NewField ny nx nlen s tb) =
       Inr \<lparr>f_x = nx, f_y = ny, f_len = nlen, f_border = boxStyleClear, f_text = s\<rparr>"
  by (simp add: NewField_def Update_init boxStyleClear_def)

theorem NewField_stores_arguments_witness:
  "IsInit \<lparr>IsInit = True, calls = []\<rparr> \<and>
   fst (NewField 5 10 (- 3) ''hello'' \<lparr>IsInit = True, calls = []\<rparr>) =
     Inr \<lparr>f_x = 10, f_y = 5, f_len = - 3, f_border = boxStyleClear, f_text = ''hello''\<rparr>"
  using NewField_stores_arguments [of "\<lparr>IsInit = True, calls = []\<rparr>" 5 10 "- 3" "''hello''"]
  by simp

subsection \<open>Reposition\<close>

text \<open>
  Claim C1 asks that \<^verbatim>\<open>Loc\<close> keep the stored text and rewrite it at the new position.
  On an initialized backend the field with text \<^verbatim>\<open>"hi"\<close> and width 2 comes back from
  \<^verbatim>\<open>Loc(7, 20)\<close> with the two-space blank string as its text, and the last three calls the
  backend receives write two spaces at row 7, columns 20 and 21, and flush.
\<close>

theorem Loc_overwrites_text:
  "f_text (fst (Loc \<lparr>f_x = 10, f_y = 5, f_len = 2, f_border = BoxStyleASCII, f_text = ''hi''\<rparr> 7 20
       \<lparr>IsInit = True, calls = []\<rparr>)) = ''  '' \<and>
   drop 29 (calls (snd (Loc \<lparr>f_x = 10, f_y = 5, f_len = 2, f_border = BoxStyleASCII, f_text = ''hi''\<rparr> 7 20
       \<lparr>IsInit = True, calls = []\<rparr>))) =
     [SetCell 20 7 0x20 ColorDefault ColorDefault, SetCell 21 7 0x20 ColorDefault ColorDefault, Flush]"
  by code_simp

subsection \<open>The stored border style\<close>

text \<open>
  Against claim C2 as written: the field \<^verbatim>\<open>NewField\<close> returns has the internal style
  \<^verbatim>\<open>boxStyleClear\<close>, the zero value, as its border.
\<close>

theorem NewField_border_Clear_counterexample:
  "fst (NewField 5 10 8 ''hello'' \<lparr>IsInit = True, calls = []\<rparr>) =
     Inr \<lparr>f_x = 10, f_y = 5, f_len = 8, f_border = boxStyleClear, f_text = ''hello''\<rparr>"
  by (simp add: NewField_def Update_init boxStyleClear_def)

text \<open>
  Claim C2, amended. A field that \<^verbatim>\<open>NewField\<close> returns stores the internal Clear style.
  A \<^verbatim>\<open>DrawBox\<close> with one of the public styles None, ASCII, Unicode on an initialized
  backend stores that style. For a field whose stored border style is one of the table
  other than Clear, the stored style is not Clear after \<^verbatim>\<open>Loc\<close>, after \<^verbatim>\<open>Shift\<close>, after
  \<^verbatim>\<open>Update\<close>, and after \<^verbatim>\<open>DrawBox\<close> with a public style.
\<close>

theorem border_not_Clear:
  "(\<forall>g. fst (NewField ny nx nlen s tb) = Inr g \<longrightarrow> f_border g = boxStyleClear) \<and>
   (IsInit tb \<and> st \<in> {BoxStyleNone, BoxStyleASCII, BoxStyleUnicode} \<longrightarrow>
      f_border (fst (snd (DrawBox f st tb))) = st \<and> st \<noteq> boxStyleClear) \<and>
   (f_border f \<in> dom boxRunesMap \<and> f_border f \<noteq> boxStyleClear \<longrightarrow>
      f_border (fst (Loc f ny nx tb)) \<noteq> boxStyleClear \<and>
      f_border (fst (Shift f dir tb)) \<noteq> boxStyleClear \<and>
      f_border (fst (snd (Update f s tb))) \<noteq> boxStyleClear \<and>
      (st \<in> {BoxStyleNone, BoxStyleASCII, BoxStyleUnicode} \<longrightarrow>
         f_border (fst (snd (DrawBox f st tb))) \<noteq> boxStyleClear))"
proof -
  have new: "f_border g = boxStyleClear" if "fst (NewField ny nx nlen s tb) = Inr g" for g
    using that by (cases "IsInit tb")
      (auto simp: NewField_def Update_init Update_not_init boxStyleClear_def)
  have pub: "st \<noteq> boxStyleClear \<and> boxRunesMap st \<noteq> None"
    if "st \<in> {BoxStyleNone, BoxStyleASCII, BoxStyleUnicode}"
    using that
    by (auto simp: boxRunesMap_def boxStyleClear_def BoxStyleNone_def BoxStyleASCII_def
        BoxStyleUnicode_def)
  have draw: "f_border (fst (snd (DrawBox f st tb))) = st \<and> st \<noteq> boxStyleClear"
    if "IsInit tb" "st \<in> {BoxStyleNone, BoxStyleASCII, BoxStyleUnicode}"
    using that pub by (simp add: DrawBox_field)
  have keep: "f_border (fst (Loc f ny nx tb)) \<noteq> boxStyleClear \<and>
      f_border (fst (Shift f dir tb)) \<noteq> boxStyleClear \<and>
      f_border (fst (snd (Update f s tb))) \<noteq> boxStyleClear \<and>
      (st \<in> {BoxStyleNone, BoxStyleASCII, BoxStyleUnicode} \<longrightarrow>
         f_border (fst (snd (DrawBox f st tb))) \<noteq> boxStyleClear)"
    if "f_border f \<in> dom boxRunesMap" "f_border f \<noteq> boxStyleClear"
    using that pub by (auto simp: Loc_field Shift_field Update_field DrawBox_field Let_def)
  from new draw keep show ?thesis
    by blast
qed

theorem border_not_Clear_witness:
  "fst (NewField 5 10 8 ''hello'' \<lparr>IsInit = True, calls = []\<rparr>) =
     Inr \<lparr>f_x = 10, f_y = 5, f_len = 8, f_border = boxStyleClear, f_text = ''hello''\<rparr> \<and>
   IsInit \<lparr>IsInit = True, calls = []\<rparr> \<and>
   f_border \<lparr>f_x = 10, f_y = 5, f_len = 8, f_border = BoxStyleASCII, f_text = ''hello''\<rparr>
     \<in> dom boxRunesMap \<and>
   f_border \<lparr>f_x = 10, f_y = 5, f_len = 8, f_border = BoxStyleASCII, f_text = ''hello''\<rparr>
     \<noteq> boxStyleClear \<and>
   BoxStyleUnicode \<in> {BoxStyleNone, BoxStyleASCII, BoxStyleUnicode} \<and>
   f_border \<lparr>f_x = 10, f_y = 5, f_len = 8, f_border = boxStyleClear, f_text = ''hello''\<rparr>
     = boxStyleClear \<and>
   f_border (fst (Loc \<lparr>f_x = 10, f_y = 5, f_len = 8, f_border = BoxStyleASCII, f_text = ''hello''\<rparr>
       5 10 \<lparr>IsInit = True, calls = []\<rparr>)) \<noteq> boxStyleClear \<and>
   f_border (fst (Shift \<lparr>f_x = 10, f_y = 5, f_len = 8, f_border = BoxStyleASCII, f_text = ''hello''\<rparr>
       FieldShiftUp \<lparr>IsInit = True, calls = []\<rparr>)) \<noteq> boxStyleClear \<and>
   f_border (fst (snd (Update \<lparr>f_x = 10, f_y = 5, f_len = 8, f_border = BoxStyleASCII, f_text = ''hello''\<rparr>
       ''hello'' \<lparr>IsInit = True, calls = []\<rparr>))) \<noteq> boxStyleClear \<and>
   f_border (fst (snd (DrawBox \<lparr>f_x = 10, f_y = 5, f_len = 8, f_border = BoxStyleASCII, f_text = ''hello''\<rparr>
       BoxStyleUnicode \<lparr>IsInit = True, calls = []\<rparr>))) = BoxStyleUnicode \<and>
   BoxStyleUnicode \<noteq> boxStyleClear"
proof -
  have k: "f_border \<lparr>f_x = 10, f_y = 5, f_len = 8, f_border = BoxStyleASCII, f_text = ''hello''\<rparr>
      \<in> dom boxRunesMap"
    by (simp add: boxRunesMap_def dom_def)
  have n: "f_border \<lparr>f_x = 10, f_y = 5, f_len = 8, f_border = BoxStyleASCII, f_text = ''hello''\<rparr>
      \<noteq> boxStyleClear"
    by (simp add: boxStyleClear_def BoxStyleASCII_def)
  have e: "fst (NewField 5 10 8 ''hello'' \<lparr>IsInit = True, calls = []\<rparr>) =
     Inr \<lparr>f_x = 10, f_y = 5, f_len = 8, f_border = boxStyleClear, f_text = ''hello''\<rparr>"
    by (simp add: NewField_def Update_init boxStyleClear_def)
  show ?thesis
    using k n e border_not_Clear [of 5 10 8 "''hello''" "\<lparr>IsInit = True, calls = []\<rparr>"
      BoxStyleUnicode
      "\<lparr>f_x = 10, f_y = 5, f_len = 8, f_border = BoxStyleASCII, f_text = ''hello''\<rparr>"
      FieldShiftUp]
    by simp
qed

subsection \<open>Operations on an uninitialized backend\<close>

text \<open>
  Against claim C3 as written: with the backend not initialized, \<^verbatim>\<open>Loc(7, 20)\<close> does not
  leave the field at column 10, row 5, and \<^verbatim>\<open>Shift(Down)\<close> does not leave it at row 5.
\<close>

theorem uninitialized_Loc_Shift_move_counterexample:
  "\<not> (f_x (fst (Loc \<lparr>f_x = 10, f_y = 5, f_len = 8, f_border = BoxStyleASCII, f_text = ''hello''\<rparr>
             7 20 \<lparr>IsInit = False, calls = []\<rparr>)) = 10 \<and>
       f_y (fst (Loc \<lparr>f_x = 10, f_y = 5, f_len = 8, f_border = BoxStyleASCII, f_text = ''hello''\<rparr>
             7 20 \<lparr>IsInit = False, calls = []\<rparr>)) = 5) \<and>
   \<not> (f_y (fst (Shift \<lparr>f_x = 10, f_y = 5, f_len = 8, f_border = BoxStyleASCII, f_text = ''hello''\<rparr>
             FieldShiftDown \<lparr>IsInit = False, calls = []\<rparr>)) = 5)"
  by (simp add: Loc_not_init Shift_not_init FieldShiftDown_def FieldShiftLeft_def
      FieldShiftRight_def FieldShiftUp_def)

text \<open>
  Claim C3, amended. With the backend not initialized, \<^verbatim>\<open>Update\<close> and \<^verbatim>\<open>DrawBox\<close> return
  the error "Term not Initialized" and leave the field (text, row, column, border style)
  and the backend as they were. \<^verbatim>\<open>Loc\<close> and \<^verbatim>\<open>Shift\<close> have no result to carry an error;
  they send nothing to the backend and leave the stored text and border style as they
  were.
\<close>

theorem uninitialized_operations:
  "\<not> IsInit tb \<Longrightarrow>
     Update f s tb = (Some ''Term not Initialized'', f, tb) \<and>
     DrawBox f st tb = (Some ''Term not Initialized'', f, tb) \<and>
     f_text (fst (Loc f ny nx tb)) = f_text f \<and>
     f_border (fst (Loc f ny nx tb)) = f_border f \<and>
     snd (Loc f ny nx tb) = tb \<and>
     f_text (fst (Shift f dir tb)) = f_text f \<and>
     f_border (fst (Shift f dir tb)) = f_border f \<and>
     snd (Shift f dir tb) = tb"
  by (simp add: Update_not_init DrawBox_not_init Loc_not_init Shift_not_init)

theorem uninitialized_operations_witness:
  "\<not> IsInit \<lparr>IsInit = False, calls = []\<rparr> \<and>
   Update \<lparr>f_x = 10, f_y = 5, f_len = 8, f_border = BoxStyleASCII, f_text = ''hello''\<rparr> ''bye''
       \<lparr>IsInit = False, calls = []\<rparr> =
     (Some ''Term not Initialized'',
      \<lparr>f_x = 10, f_y = 5, f_len = 8, f_border = BoxStyleASCII, f_text = ''hello''\<rparr>,
      \<lparr>IsInit = False, calls = []\<rparr>) \<and>
   DrawBox \<lparr>f_x = 10, f_y = 5, f_len = 8, f_border = BoxStyleASCII, f_text = ''hello''\<rparr>
       BoxStyleUnicode \<lparr>IsInit = False, calls = []\<rparr> =
     (Some ''Term not Initialized'',
      \<lparr>f_x = 10, f_y = 5, f_len = 8, f_border = BoxStyleASCII, f_text = ''hello''\<rparr>,
      \<lparr>IsInit = False, calls = []\<rparr>) \<and>
   f_text (fst (Loc \<lparr>f_x = 10, f_y = 5, f_len = 8, f_border = BoxStyleASCII, f_text = ''hello''\<rparr>
       7 20 \<lparr>IsInit = False, calls = []\<rparr>)) = ''hello'' \<and>
   f_border (fst (Loc \<lparr>f_x = 10, f_y = 5, f_len = 8, f_border = BoxStyleASCII, f_text = ''hello''\<rparr>
       7 20 \<lparr>IsInit = False, calls = []\<rparr>)) = BoxStyleASCII \<and>
   snd (Loc \<lparr>f_x = 10, f_y = 5, f_len = 8, f_border = BoxStyleASCII, f_text = ''hello''\<rparr>
       7 20 \<lparr>IsInit = False, calls = []\<rparr>) = \<lparr>IsInit = False, calls = []\<rparr> \<and>
   f_text (fst (Shift \<lparr>f_x = 10, f_y = 5, f_len = 8, f_border = BoxStyleASCII, f_text = ''hello''\<rparr>
       FieldShiftDown \<lparr>IsInit = False, calls = []\<rparr>)) = ''hello'' \<and>
   f_border (fst (Shift \<lparr>f_x = 10, f_y = 5, f_len = 8, f_border = BoxStyleASCII, f_text = ''hello''\<rparr>
       FieldShiftDown \<lparr>IsInit = False, calls = []\<rparr>)) = BoxStyleASCII \<and>
   snd (Shift \<lparr>f_x = 10, f_y = 5, f_len = 8, f_border = BoxStyleASCII, f_text = ''hello''\<rparr>
       FieldShiftDown \<lparr>IsInit = False, calls = []\<rparr>) = \<lparr>IsInit = False, calls = []\<rparr>"
  using uninitialized_operations [of "\<lparr>IsInit = False, calls = []\<rparr>"
      "\<lparr>f_x = 10, f_y = 5, f_len = 8, f_border = BoxStyleASCII, f_text = ''hello''\<rparr>"
      "''bye''" BoxStyleUnicode 7 20 FieldShiftDown]
  by simp

subsection \<open>Cells of a content update\<close>

text \<open>
  Claim C4 asks that the i-th rune of the new text go to the cell at column + i. The loop
  index of \<^verbatim>\<open>Update\<close> is the byte offset of the rune: for the three bytes \<^verbatim>\<open>C3 A9 61\<close>
  (an e with acute accent, then \<^verbatim>\<open>a\<close>) at column 10, the second rune is written to column
  12, and column 11 is not written.
\<close>

theorem Update_multibyte_offsets:
  "snd (snd (Update \<lparr>f_x = 10, f_y = 5, f_len = 8, f_border = boxStyleClear, f_text = []\<rparr>
       [CHR 0xC3, CHR 0xA9, CHR ''a''] \<lparr>IsInit = True, calls = []\<rparr>)) =
     \<lparr>IsInit = True,
      calls = [SetCell 10 5 0xE9 ColorDefault ColorDefault,
               SetCell 12 5 0x61 ColorDefault ColorDefault, Flush]\<rparr>"
  by code_simp

subsection \<open>Border drawing\<close>

text \<open>
  Claim C6. With the backend initialized, which is the precondition of \<^verbatim>\<open>DrawBox\<close>, for
  every field and every style value outside the four recognized styles (Clear, None,
  ASCII, Unicode), \<^verbatim>\<open>DrawBox\<close> returns the error "Unknown Box Style", sends no call to the
  backend (no cell is written), and leaves the field, its stored border style included,
  as it was.
\<close>

theorem DrawBox_unknown_style:
  assumes "IsInit tb"
    and "st \<notin> {boxStyleClear, BoxStyleNone, BoxStyleASCII, BoxStyleUnicode}"
  shows "DrawBox f st tb = (Some ''Unknown Box Style'', f, tb) \<and>
         fst (DrawBox f st tb) = Some ''Unknown Box Style'' \<and>
         calls (snd (snd (DrawBox f st tb))) = calls tb \<and>
         f_border (fst (snd (DrawBox f st tb))) = f_border f"
proof -
  have "boxRunesMap st = None"
    using assms(2) by (simp add: boxRunesMap_None_iff)
  with assms(1) have "DrawBox f st tb = (Some ''Unknown Box Style'', f, tb)"
    by (rule DrawBox_unknown)
  then show ?thesis
    by simp
qed

theorem DrawBox_unknown_style_witness:
  "IsInit \<lparr>IsInit = True, calls = [Flush]\<rparr> \<and>
   (7 :: boxStyle) \<notin> {boxStyleClear, BoxStyleNone, BoxStyleASCII, BoxStyleUnicode} \<and>
   DrawBox \<lparr>f_x = 10, f_y = 5, f_len = 8, f_border = BoxStyleASCII, f_text = ''hello''\<rparr> 7
       \<lparr>IsInit = True, calls = [Flush]\<rparr> =
     (Some ''Unknown Box Style'',
      \<lparr>f_x = 10, f_y = 5, f_len = 8, f_border = BoxStyleASCII, f_text = ''hello''\<rparr>,
      \<lparr>IsInit = True, calls = [Flush]\<rparr>) \<and>
   calls (snd (snd (DrawBox
       \<lparr>f_x = 10, f_y = 5, f_len = 8, f_border = BoxStyleASCII, f_text = ''hello''\<rparr> 7
       \<lparr>IsInit = True, calls = [Flush]\<rparr>))) = [Flush] \<and>
   f_border (fst (snd (DrawBox
       \<lparr>f_x = 10, f_y = 5, f_len = 8, f_border = BoxStyleASCII, f_text = ''hello''\<rparr> 7
       \<lparr>IsInit = True, calls = [Flush]\<rparr>))) = BoxStyleASCII"
proof -
  have i: "IsInit \<lparr>IsInit = True, calls = [Flush]\<rparr>"
    by simp
  have h: "(7 :: boxStyle) \<notin> {boxStyleClear, BoxStyleNone, BoxStyleASCII, BoxStyleUnicode}"
    by (simp add: boxStyleClear_def BoxStyleNone_def BoxStyleASCII_def BoxStyleUnicode_def)
  show ?thesis
    using i h DrawBox_unknown_style [OF i h,
      of "\<lparr>f_x = 10, f_y = 5, f_len = 8, f_border = BoxStyleASCII, f_text = ''hello''\<rparr>"]
    by simp
qed

text \<open>
  Against claim C7 as written: on a backend that is not initialized, \<^verbatim>\<open>DrawBox(ASCII)\<close>
  writes no corner at (column - 1, row - 1); and for a field whose width is the largest
  \<^verbatim>\<open>int\<close>, where \<^verbatim>\<open>f.len+1\<close> wraps to the smallest one and the loop body never runs, it
  writes no edge glyph at (column + 0, row - 1).
\<close>

theorem DrawBox_geometry_counterexample:
  "SetCell 9 4 0x2B ColorDefault ColorDefault \<notin>
     set (calls (snd (snd (DrawBox
       \<lparr>f_x = 10, f_y = 5, f_len = 2, f_border = boxStyleClear, f_text = ''hi''\<rparr>
       BoxStyleASCII \<lparr>IsInit = False, calls = []\<rparr>)))) \<and>
   SetCell 10 4 0x2D ColorDefault ColorDefault \<notin>
     set (calls (snd (snd (DrawBox
       \<lparr>f_x = 10, f_y = 5, f_len = 0x7FFFFFFFFFFFFFFF, f_border = boxStyleClear, f_text = ''hi''\<rparr>
       BoxStyleASCII \<lparr>IsInit = True, calls = []\<rparr>))))"
  by code_simp

text \<open>
  Claim C7, amended. With the backend initialized, for every field with anchor
  (column, row) whose width is not the largest \<^verbatim>\<open>int\<close>, \<^verbatim>\<open>DrawBox\<close> with a recognized style
  succeeds, stores the style and sends exactly these calls, in this order: the four corner
  glyphs at (column - 1, row - 1), (column + width + 1, row - 1), (column - 1, row + 1),
  (column + width + 1, row + 1); the vertical glyph at (column - 1, row) and
  (column + width + 1, row); the horizontal glyph at (column + i, row - 1) and
  (column + i, row + 1) for every i from 0 to width inclusive (none when width is
  negative); and a flush. Coordinates are computed in 64-bit wrapping arithmetic.
\<close>

theorem DrawBox_geometry:
  assumes "IsInit tb" and "boxRunesMap st = Some rs" and "f_len f \<noteq> 0x7FFFFFFFFFFFFFFF"
  shows "DrawBox f st tb =
     (None, f\<lparr>f_border := st\<rparr>,
      tb\<lparr>calls := calls tb @
        [SetCell (f_x f - 1) (f_y f - 1) (rs ! 0) ColorDefault ColorDefault,
         SetCell (f_x f + f_len f + 1) (f_y f - 1) (rs ! 1) ColorDefault ColorDefault,
         SetCell (f_x f - 1) (f_y f + 1) (rs ! 2) ColorDefault ColorDefault,
         SetCell (f_x f + f_len f + 1) (f_y f + 1) (rs ! 3) ColorDefault ColorDefault,
         SetCell (f_x f - 1) (f_y f) (rs ! 5) ColorDefault ColorDefault,
         SetCell (f_x f + f_len f + 1) (f_y f) (rs ! 5) ColorDefault ColorDefault] @
        concat (map (\<lambda>i. [SetCell (f_x f + word_of_int i) (f_y f - 1) (rs ! 4) ColorDefault ColorDefault,
                           SetCell (f_x f + word_of_int i) (f_y f + 1) (rs ! 4) ColorDefault ColorDefault])
                  [0..sint (f_len f)]) @
        [Flush]\<rparr>)"
proof -
  have "sint (f_len f) < 2 ^ 63 - 1"
    using assms(3) by (rule sint_below_max)
  then show ?thesis
    using assms(1,2)
    by (simp add: DrawBox_def Let_def DrawBox_loop_calls tb_SetCell_def tb_Flush_def edge_cells_def)
qed

theorem DrawBox_geometry_witness:
  "IsInit \<lparr>IsInit = True, calls = []\<rparr> \<and>
   boxRunesMap BoxStyleASCII = Some [0x2B, 0x2B, 0x2B, 0x2B, 0x2D, 0x7C] \<and>
   f_len \<lparr>f_x = 10, f_y = 5, f_len = 2, f_border = boxStyleClear, f_text = ''hi''\<rparr>
     \<noteq> 0x7FFFFFFFFFFFFFFF \<and>
   DrawBox \<lparr>f_x = 10, f_y = 5, f_len = 2, f_border = boxStyleClear, f_text = ''hi''\<rparr> BoxStyleASCII
       \<lparr>IsInit = True, calls = []\<rparr> =
     (None, \<lparr>f_x = 10, f_y = 5, f_len = 2, f_border = BoxStyleASCII, f_text = ''hi''\<rparr>,
      \<lparr>IsInit = True,
       calls =
         [SetCell 9 4 0x2B ColorDefault ColorDefault, SetCell 13 4 0x2B ColorDefault ColorDefault,
          SetCell 9 6 0x2B ColorDefault ColorDefault, SetCell 13 6 0x2B ColorDefault ColorDefault,
          SetCell 9 5 0x7C ColorDefault ColorDefault, SetCell 13 5 0x7C ColorDefault ColorDefault,
          SetCell 10 4 0x2D ColorDefault ColorDefault, SetCell 10 6 0x2D ColorDefault ColorDefault,
          SetCell 11 4 0x2D ColorDefault ColorDefault, SetCell 11 6 0x2D ColorDefault ColorDefault,
          SetCell 12 4 0x2D ColorDefault ColorDefault, SetCell 12 6 0x2D ColorDefault ColorDefault,
          Flush]\<rparr>)"
proof -
  have i: "IsInit \<lparr>IsInit = True, calls = []\<rparr>"
    by simp
  have k: "boxRunesMap BoxStyleASCII = Some [0x2B, 0x2B, 0x2B, 0x2B, 0x2D, 0x7C]"
    by (simp add: boxRunesMap_def boxStyleClear_def BoxStyleNone_def BoxStyleASCII_def)
  have n: "f_len \<lparr>f_x = 10, f_y = 5, f_len = 2, f_border = boxStyleClear, f_text = ''hi''\<rparr>
      \<noteq> 0x7FFFFFFFFFFFFFFF"
    by simp
  have u: "[0..2] = [0, 1, 2::int]"
    by (simp add: upto_rec1)
  show ?thesis
    using i k n DrawBox_geometry [OF i k n]
    by (simp add: u)
qed

subsection \<open>Shift\<close>

text \<open>
  Claim C8. For every field (its border style one of the table, as it is for every field
  the package hands out), \<^verbatim>\<open>Shift(Left)\<close> followed by \<^verbatim>\<open>Shift(Right)\<close> restores the original
  column and \<^verbatim>\<open>Shift(Up)\<close> followed by \<^verbatim>\<open>Shift(Down)\<close> restores the original row, and after
  both calls the stored border style is the original one. This holds on an initialized
  backend and on one that is not.
\<close>

theorem Shift_there_and_back:
  assumes "f_border f \<in> dom boxRunesMap"
  shows "(case Shift f FieldShiftLeft tb of (f1, tb1) \<Rightarrow>
            case Shift f1 FieldShiftRight tb1 of (f2, tb2) \<Rightarrow>
              f_x f2 = f_x f \<and> f_border f2 = f_border f) \<and>
         (case Shift f FieldShiftUp tb of (f1, tb1) \<Rightarrow>
            case Shift f1 FieldShiftDown tb1 of (f2, tb2) \<Rightarrow>
              f_y f2 = f_y f \<and> f_border f2 = f_border f)"
proof -
  from assms obtain rs where known: "boxRunesMap (f_border f) = Some rs"
    by auto
  have dirs: "FieldShiftRight \<noteq> FieldShiftLeft" "FieldShiftDown \<noteq> FieldShiftLeft"
    "FieldShiftDown \<noteq> FieldShiftRight" "FieldShiftDown \<noteq> FieldShiftUp"
    "FieldShiftUp \<noteq> FieldShiftLeft" "FieldShiftUp \<noteq> FieldShiftRight"
    by (simp_all add: FieldShiftLeft_def FieldShiftRight_def FieldShiftUp_def FieldShiftDown_def)
  show ?thesis
    using known dirs
    by (simp add: case_prod_unfold Shift_field Shift_IsInit Let_def)
qed

theorem Shift_there_and_back_witness:
  "f_border \<lparr>f_x = 10, f_y = 5, f_len = 2, f_border = BoxStyleASCII, f_text = ''hi''\<rparr>
     \<in> dom boxRunesMap \<and>
   (case Shift \<lparr>f_x = 10, f_y = 5, f_len = 2, f_border = BoxStyleASCII, f_text = ''hi''\<rparr>
       FieldShiftLeft \<lparr>IsInit = True, calls = []\<rparr> of (f1, tb1) \<Rightarrow>
      case Shift f1 FieldShiftRight tb1 of (f2, tb2) \<Rightarrow>
        f_x f2 = 10 \<and> f_border f2 = BoxStyleASCII) \<and>
   (case Shift \<lparr>f_x = 10, f_y = 5, f_len = 2, f_border = BoxStyleASCII, f_text = ''hi''\<rparr>
       FieldShiftUp \<lparr>IsInit = True, calls = []\<rparr> of (f1, tb1) \<Rightarrow>
      case Shift f1 FieldShiftDown tb1 of (f2, tb2) \<Rightarrow>
        f_y f2 = 5 \<and> f_border f2 = BoxStyleASCII)"
proof -
  have k: "f_border \<lparr>f_x = 10, f_y = 5, f_len = 2, f_border = BoxStyleASCII, f_text = ''hi''\<rparr>
      \<in> dom boxRunesMap"
    by (simp add: boxRunesMap_def dom_def)
  show ?thesis
    using k Shift_there_and_back [OF k, of "\<lparr>IsInit = True, calls = []\<rparr>"]
    by simp
qed

text \<open>
  Claim C10. For every field and every direction value outside the four constants,
  \<^verbatim>\<open>Shift\<close> leaves the stored row and column as they were, and the backend ends in the state
  that erasing the border, drawing it again in the stored style and rewriting the stored
  text, all at the unchanged position, lead to.
\<close>

theorem Shift_unknown_direction:
  assumes "dir \<notin> {FieldShiftLeft, FieldShiftRight, FieldShiftUp, FieldShiftDown}"
  shows "f_x (fst (Shift f dir tb)) = f_x f \<and> f_y (fst (Shift f dir tb)) = f_y f \<and>
         snd (Shift f dir tb) =
           snd (snd (Update f (f_text f)
             (snd (snd (DrawBox f (f_border f) (snd (snd (DrawBox f boxStyleClear tb))))))))"
proof -
  have pos: "f_x (fst (Shift f dir tb)) = f_x f \<and> f_y (fst (Shift f dir tb)) = f_y f"
    using assms by (simp add: Shift_field Let_def)
  have f1: "fst (snd (DrawBox f boxStyleClear tb)) =
      (if IsInit tb then f\<lparr>f_border := boxStyleClear\<rparr> else f)"
    by (simp add: DrawBox_field boxRunesMap_Clear)
  have "snd (Shift f dir tb) =
           snd (snd (Update f (f_text f)
             (snd (snd (DrawBox f (f_border f) (snd (snd (DrawBox f boxStyleClear tb))))))))"
    using assms
    by (simp add: Shift_def Let_def case_prod_unfold f1 DrawBox_field DrawBox_backend_border
        Update_backend_border)
  with pos show ?thesis by simp
qed

theorem Shift_unknown_direction_witness:
  "(4 :: shiftDir) \<notin> {FieldShiftLeft, FieldShiftRight, FieldShiftUp, FieldShiftDown} \<and>
   f_x (fst (Shift \<lparr>f_x = 10, f_y = 5, f_len = 0, f_border = BoxStyleASCII, f_text = ''hi''\<rparr> 4
       \<lparr>IsInit = True, calls = []\<rparr>)) = 10 \<and>
   f_y (fst (Shift \<lparr>f_x = 10, f_y = 5, f_len = 0, f_border = BoxStyleASCII, f_text = ''hi''\<rparr> 4
       \<lparr>IsInit = True, calls = []\<rparr>)) = 5 \<and>
   snd (Shift \<lparr>f_x = 10, f_y = 5, f_len = 0, f_border = BoxStyleASCII, f_text = ''hi''\<rparr> 4
       \<lparr>IsInit = True, calls = []\<rparr>) =
     \<lparr>IsInit = True,
      calls =
        [SetCell 9 4 0x20 ColorDefault ColorDefault, SetCell 11 4 0x20 ColorDefault ColorDefault,
         SetCell 9 6 0x20 ColorDefault ColorDefault, SetCell 11 6 0x20 ColorDefault ColorDefault,
         SetCell 9 5 0x20 ColorDefault ColorDefault, SetCell 11 5 0x20 ColorDefault ColorDefault,
         SetCell 10 4 0x20 ColorDefault ColorDefault, SetCell 10 6 0x20 ColorDefault ColorDefault,
         Flush,
         SetCell 9 4 0x2B ColorDefault ColorDefault, SetCell 11 4 0x2B ColorDefault ColorDefault,
         SetCell 9 6 0x2B ColorDefault ColorDefault, SetCell 11 6 0x2B ColorDefault ColorDefault,
         SetCell 9 5 0x7C ColorDefault ColorDefault, SetCell 11 5 0x7C ColorDefault ColorDefault,
         SetCell 10 4 0x2D ColorDefault ColorDefault, SetCell 10 6 0x2D ColorDefault ColorDefault,
         Flush,
         SetCell 10 5 0x68 ColorDefault ColorDefault, SetCell 11 5 0x69 ColorDefault ColorDefault,
         Flush]\<rparr>"
proof -
  have h: "(4 :: shiftDir) \<notin> {FieldShiftLeft, FieldShiftRight, FieldShiftUp, FieldShiftDown}"
    by (simp add: FieldShiftLeft_def FieldShiftRight_def FieldShiftUp_def FieldShiftDown_def)
  have run: "snd (snd (Update \<lparr>f_x = 10, f_y = 5, f_len = 0, f_border = BoxStyleASCII, f_text = ''hi''\<rparr> ''hi''
      (snd (snd (DrawBox \<lparr>f_x = 10, f_y = 5, f_len = 0, f_border = BoxStyleASCII, f_text = ''hi''\<rparr>
        BoxStyleASCII
        (snd (snd (DrawBox \<lparr>f_x = 10, f_y = 5, f_len = 0, f_border = BoxStyleASCII, f_text = ''hi''\<rparr>
          boxStyleClear \<lparr>IsInit = True, calls = []\<rparr>)))))))) =
     \<lparr>IsInit = True,
      calls =
        [SetCell 9 4 0x20 ColorDefault ColorDefault, SetCell 11 4 0x20 ColorDefault ColorDefault,
         SetCell 9 6 0x20 ColorDefault ColorDefault, SetCell 11 6 0x20 ColorDefault ColorDefault,
         SetCell 9 5 0x20 ColorDefault ColorDefault, SetCell 11 5 0x20 ColorDefault ColorDefault,
         SetCell 10 4 0x20 ColorDefault ColorDefault, SetCell 10 6 0x20 ColorDefault ColorDefault,
         Flush,
         SetCell 9 4 0x2B ColorDefault ColorDefault, SetCell 11 4 0x2B ColorDefault ColorDefault,
         SetCell 9 6 0x2B ColorDefault ColorDefault, SetCell 11 6 0x2B ColorDefault ColorDefault,
         SetCell 9 5 0x7C ColorDefault ColorDefault, SetCell 11 5 0x7C ColorDefault ColorDefault,
         SetCell 10 4 0x2D ColorDefault ColorDefault, SetCell 10 6 0x2D ColorDefault ColorDefault,
         Flush,
         SetCell 10 5 0x68 ColorDefault ColorDefault, SetCell 11 5 0x69 ColorDefault ColorDefault,
         Flush]\<rparr>"
    by code_simp
  show ?thesis
    using h run Shift_unknown_direction [OF h,
      of "\<lparr>f_x = 10, f_y = 5, f_len = 0, f_border = BoxStyleASCII, f_text = ''hi''\<rparr>"
         "\<lparr>IsInit = True, calls = []\<rparr>"]
    by simp
qed

end
